theory Spec2Isabelle
  imports Complex_Main "HOL-Library.Code_Target_Numeral"
begin

section \<open>The report writer of xpub-scan: \<open>src/actions/saveAnalysis.ts\<close>\<close>

text \<open>
  The module turns the result of a scan into one output object and writes it as JSON
  (to a file or to standard output) and as an HTML report. This theory embeds the module
  function by function and proves what the specification says about the output object,
  about the amounts in it and about what is written where.
\<close>

subsection \<open>JavaScript values the module computes with\<close>

text \<open>
  A string is the list of its code units; the module's own text stays below 256, and the
  filler of \<open>renderAmount\<close> (U+00A4) is the code unit \<open>0xA4\<close>.

  A number is a finite double, modelled by the decimal it prints as: the rational that
  \<open>String(x)\<close> denotes, which is also what big.js reads when it is given the number.
  \<open>NaN\<close> and the infinities are not numbers of the model (big.js rejects them).
  Remainder, truncation, comparison with zero and printing are functions of that decimal.
  The one operation that is not is the conversion of an exact big.js decimal back to a
  double, \<open>Number(big)\<close>: it rounds to the nearest double, and it is a parameter of the
  model (\<open>Number_of_Big\<close> below).
\<close>

type_synonym number = rat


definition js_rem :: "number \<Rightarrow> number \<Rightarrow> number" where
  \<comment> \<open>\<open>n % d\<close> for \<open>d \<noteq> 0\<close>: the remainder has the sign of the dividend.\<close>
  "js_rem n d = n - d * of_int (if 0 \<le> n / d then \<lfloor>n / d\<rfloor> else \<lceil>n / d\<rceil>)"

definition Math_trunc :: "number \<Rightarrow> number" where
  "Math_trunc n = of_int (if 0 \<le> n then \<lfloor>n\<rfloor> else \<lceil>n\<rceil>)"

definition isInteger :: "number \<Rightarrow> bool" where
  \<comment> \<open>\<open>Number.isInteger\<close>\<close>
  "isInteger n = (of_int \<lfloor>n\<rfloor> = n)"

definition pow10 :: "int \<Rightarrow> rat" where
  "pow10 z = (if 0 \<le> z then 10 ^ nat z else 1 / 10 ^ nat (- z))"

definition digit_char :: "nat \<Rightarrow> char" where
  "digit_char d = ''0123456789'' ! d"

fun digits :: "nat \<Rightarrow> string" where
  "digits n = (if n < 10 then [digit_char n] else digits (n div 10) @ [digit_char (n mod 10)])"

declare digits.simps [simp del]

text \<open>
  \<open>String(x)\<close> (Number::toString, radix 10). The decimal \<open>x\<close> is written as
  \<open>s * 10 ^ e\<close> with \<open>s\<close> not divisible by ten; with \<open>k\<close> the number of digits of
  \<open>s\<close> and \<open>n = k + e\<close>, the standard prints plain digits for \<open>n \<le> 21\<close> and the
  exponent form beyond. A rational that is no finite decimal is not a number; the search
  for its scale is bounded and prints \<open>NaN\<close> for it.
\<close>

fun scale_to_int :: "nat \<Rightarrow> rat \<Rightarrow> int \<Rightarrow> (nat \<times> int) option" where
  "scale_to_int fuel x e =
     (if of_int \<lfloor>x\<rfloor> = x then Some (nat \<lfloor>x\<rfloor>, e)
      else case fuel of 0 \<Rightarrow> None | Suc f \<Rightarrow> scale_to_int f (x * 10) (e - 1))"

declare scale_to_int.simps [simp del]

function strip_zeros :: "nat \<Rightarrow> int \<Rightarrow> nat \<times> int" where
  "strip_zeros s e =
     (if s \<noteq> 0 \<and> s mod 10 = 0 then strip_zeros (s div 10) (e + 1) else (s, e))"
  by pat_completeness auto
termination
  by (relation "measure fst") auto

declare strip_zeros.simps [simp del]

definition exponent_part :: "int \<Rightarrow> string" where
  "exponent_part c = (if 0 \<le> c then ''e+'' else ''e-'') @ digits (nat \<bar>c\<bar>)"

definition render_decimal :: "nat \<Rightarrow> int \<Rightarrow> string" where
  "render_decimal s e =
     (let ds = digits s; k = int (length ds); n = k + e in
      if k \<le> n \<and> n \<le> 21 then ds @ replicate (nat (n - k)) CHR ''0''
      else if 0 < n \<and> n \<le> 21 then take (nat n) ds @ ''.'' @ drop (nat n) ds
      else if - 6 < n \<and> n \<le> 0 then ''0.'' @ replicate (nat (- n)) CHR ''0'' @ ds
      else if k = 1 then ds @ exponent_part (n - 1)
      else take 1 ds @ ''.'' @ drop 1 ds @ exponent_part (n - 1))"

definition String_num :: "number \<Rightarrow> string" where
  "String_num x =
     (if x = 0 then ''0''
      else case scale_to_int 1100 \<bar>x\<bar> 0 of
        None \<Rightarrow> ''NaN''
      | Some (s, e) \<Rightarrow>
          (if x < 0 then ''-'' else '''') @
          (case strip_zeros s e of (s', e') \<Rightarrow> render_decimal s' e'))"


text \<open>
  Reading a string as a number (\<open>Number(s)\<close>, and the coercion of \<open>s == 0\<close>): white
  space is trimmed, the empty string is zero, and a signed decimal literal with optional
  fraction and exponent is its value. \<open>None\<close> stands for \<open>NaN\<close> and for the
  infinities: the module only asks whether the result is zero and whether it is an integer,
  and both answer no for all three. A literal in radix 16, 8 or 2 (\<open>0x\<close>, \<open>0o\<close>,
  \<open>0b\<close>) is its value. The literal is taken exactly: on the strings that \<open>String\<close>
  prints, which are the only ones the module reads back, that is the round trip of a
  double through its shortest decimal.
\<close>

definition is_digit :: "char \<Rightarrow> bool" where
  "is_digit c = (c \<in> set ''0123456789'')"

definition digit_val :: "char \<Rightarrow> nat" where
  "digit_val c = of_char c - 48"

definition nat_of_digits :: "string \<Rightarrow> nat" where
  "nat_of_digits ds = foldl (\<lambda>a c. 10 * a + digit_val c) 0 ds"



definition parse_exponent :: "string \<Rightarrow> int option" where
  "parse_exponent r =
     (case r of
        [] \<Rightarrow> Some 0
      | c # t \<Rightarrow>
          if c = CHR ''e'' \<or> c = CHR ''E'' then
            (let (sg, ds) = (case t of
                   [] \<Rightarrow> (1, [])
                 | d # u \<Rightarrow> if d = CHR ''+'' then (1, u) else if d = CHR ''-'' then (- 1, u) else (1, t))
             in if ds \<noteq> [] \<and> list_all is_digit ds then Some (sg * int (nat_of_digits ds)) else None)
          else None)"





subsection \<open>String operations\<close>

definition lower_char :: "char \<Rightarrow> char" where
  \<comment> \<open>The lower-case mapping on the code units below 256: A to Z, and U+00C0 to U+00DE
      except the multiplication sign.\<close>
  "lower_char c =
     (let n = (of_char c :: nat) in
      if (65 \<le> n \<and> n \<le> 90) \<or> (192 \<le> n \<and> n \<le> 222 \<and> n \<noteq> 215) then char_of (n + 32) else c)"

definition toLowerCase :: "string \<Rightarrow> string" where
  "toLowerCase s = map lower_char s"


definition starts_with :: "string \<Rightarrow> string \<Rightarrow> bool" where
  "starts_with pat s = (take (length pat) s = pat)"

fun indexOf :: "string \<Rightarrow> string \<Rightarrow> nat option" where
  \<comment> \<open>the position of the first occurrence of \<open>pat\<close>\<close>
  "indexOf pat [] = (if pat = [] then Some 0 else None)"
| "indexOf pat (c # cs) =
     (if starts_with pat (c # cs) then Some 0 else map_option Suc (indexOf pat cs))"

fun substitution :: "string \<Rightarrow> string \<Rightarrow> string \<Rightarrow> string \<Rightarrow> string" where
  \<comment> \<open>GetSubstitution for a string pattern (no captures): \<open>$$\<close>, \<open>$&\<close>, \<open>$`\<close> and
      \<open>$'\<close> are expanded, every other character is copied.\<close>
  "substitution matched preceding following [] = []"
| "substitution matched preceding following [c] = [c]"
| "substitution matched preceding following (c # d # r) =
     (if c = CHR ''$'' \<and> d = CHR ''$'' then CHR ''$'' # substitution matched preceding following r
      else if c = CHR ''$'' \<and> d = CHR ''&'' then matched @ substitution matched preceding following r
      else if c = CHR ''$'' \<and> d = CHR 0x60 then preceding @ substitution matched preceding following r
      else if c = CHR ''$'' \<and> d = CHR 0x27 then following @ substitution matched preceding following r
      else c # substitution matched preceding following (d # r))"

definition replace :: "string \<Rightarrow> string \<Rightarrow> string \<Rightarrow> string" where
  \<comment> \<open>\<open>s.replace(pat, repl)\<close> with a string pattern: the first occurrence only.\<close>
  "replace s pat repl =
     (case indexOf pat s of
        None \<Rightarrow> s
      | Some i \<Rightarrow>
          (let preceding = take i s; following = drop (i + length pat) s
           in preceding @ substitution pat preceding following repl @ following))"

function split_from :: "string \<Rightarrow> string \<Rightarrow> string \<Rightarrow> string list" where
  "split_from sep acc [] = [rev acc]"
| "split_from sep acc (c # cs) =
     (if sep \<noteq> [] \<and> starts_with sep (c # cs)
      then rev acc # split_from sep [] (drop (length sep) (c # cs))
      else split_from sep (c # acc) cs)"
  by pat_completeness auto
termination
  by (relation "measure (\<lambda>(sep, acc, s). length s)") auto

definition split :: "string \<Rightarrow> string \<Rightarrow> string list" where
  \<comment> \<open>\<open>s.split(sep)\<close>; an empty separator splits into the code units.\<close>
  "split s sep = (if sep = [] then map (\<lambda>c. [c]) s else split_from sep [] s)"




definition substring :: "string \<Rightarrow> nat \<Rightarrow> nat \<Rightarrow> string" where
  \<comment> \<open>\<open>s.substring(a, b)\<close>: both ends are clamped to the length, and swapped when
      the first is the larger.\<close>
  "substring s a b =
     (let a = min a (length s); b = min b (length s); from = min a b; to = max a b
      in take (to - from) (drop from s))"

subsection \<open>The data the module receives and the object it builds\<close>

text \<open>
  \<open>save(meta, data, directory)\<close> takes its arguments untyped. The records list the
  members the module reads. An address is an instance of the repository's address class
  (not part of this module): its three accessors \<open>getDerivation()\<close>, \<open>toString()\<close>
  and \<open>asCashAddress()\<close> take no argument, and the record holds what they return.
  An optional member is an \<open>option\<close>, \<open>None\<close> for \<open>undefined\<close>.
  A parameter that has the name of a member is written with a prime.
  Summary entries, operations and comparisons have the same members before and after
  \<open>save\<close>; only the type of their amounts changes, from number to string.
\<close>

record derivation =
  account :: number
  index :: number

record stats =
  funded :: number
  spent :: number

record address =
  addressType :: string
  getDerivation :: derivation
  toString :: string
  asCashAddress :: "string option"
  balance :: number
  stats :: stats

record 'a summaryEntry =
  addressType :: string
  balance :: 'a

record 'a operation =
  date :: string
  block :: number
  txid :: string
  address :: "string option"
  cashAddress :: "string option"
  amount :: 'a
  operationType :: string

record 'a comparison =
  imported :: "'a operation option"
  actual :: "'a operation option"
  status :: string

record metadata =
  version :: string
  xpub :: string
  date :: string

record data =
  addresses :: "address list"
  summary :: "number summaryEntry list"
  transactions :: "number operation list"
  comparisons :: "number comparison list option"

record addressOutput =
  addressType :: string
  derivation :: derivation
  address :: string
  cashAddress :: "string option"
  balance :: string
  funded :: string
  spent :: string

datatype jsvalue = Str string | Num number

text \<open>
  The \<open>meta\<close> member of the output object is kept as the list of its keys and values in
  insertion order, which is the order \<open>Object.keys\<close> enumerates.
\<close>

record object =
  meta :: "(string \<times> jsvalue) list"
  addresses :: "addressOutput list"
  summary :: "string summaryEntry list"
  transactions :: "string operation list"
  comparisons :: "string comparison list option"

subsection \<open>What the module imports\<close>

text \<open>
  The settings (\<open>configuration\<close>, \<open>GAP_LIMIT\<close>, \<open>EXTERNAL_EXPLORER_URL\<close>), the
  report template, the helper \<open>toUnprefixedCashAddress\<close>, the directory of the module
  (\<open>__dirname\<close>), \<open>JSON.stringify(_, null, 2)\<close>, the minifier and the rounding
  \<open>Number(big)\<close> inside the satoshi-bitcoin library are parameters.
\<close>

record defaultAPI =
  bch :: string
  general :: string

record configuration =
  currency :: string
  symbol :: string
  providerType :: string
  customAPI :: "string option"
  defaultAPI :: defaultAPI

record env =
  configuration :: configuration
  GAP_LIMIT :: number
  EXTERNAL_EXPLORER_URL :: string
  reportTemplate :: string
  toUnprefixedCashAddress :: "string option \<Rightarrow> string option"
  dirname :: string
  JSON_stringify :: "object \<Rightarrow> string"
  minify :: "string \<Rightarrow> string"
  Number_of_Big :: "rat \<Rightarrow> number"


subsection \<open>The satoshi-bitcoin library\<close>

text \<open>
  \<open>sb.toSatoshi(x)\<close> is \<open>Number(new Big(x).times(100000000))\<close>, and
  \<open>sb.toBitcoin(x)\<close> is \<open>Number(new Big(x).div(100000000))\<close> after a check that
  \<open>x\<close>, read as a number when it is a string, is an integer. The module calls
  \<open>toBitcoin\<close> on the strings of the output object only.
\<close>

definition toSatoshi :: "env \<Rightarrow> number \<Rightarrow> number" where
  "toSatoshi ev bitcoin = Number_of_Big ev (bitcoin * 100000000)"


subsection \<open>The functions of the module\<close>

definition toBaseUnit :: "env \<Rightarrow> number \<Rightarrow> string" where
  "toBaseUnit ev amount' =
     (let n = toSatoshi ev amount';
          n = (if js_rem n 1 \<noteq> 0 then Math_trunc n else n)
      in String_num n)"



definition getCoinName :: "env \<Rightarrow> string" where
  "getCoinName ev = replace (toLowerCase (currency (configuration ev))) '' '' ''-''"

definition addressAsLink :: "env \<Rightarrow> string option \<Rightarrow> string" where
  \<open>addressAsLink ev address' =
     (case address' of
        None \<Rightarrow> ''''
      | Some addr \<Rightarrow>
          (let url = replace (replace (replace (EXTERNAL_EXPLORER_URL ev) ''{coin}'' (getCoinName ev))
                       ''{type}'' ''address'') ''{item}'' addr;
               addr = (if length addr < 45 then addr else substring addr 0 45 @ ''...'')
           in ''<a class="monospaced" href="'' @ url @ ''" target=_blank>'' @ addr @ ''</a>''))\<close>







subsection \<open>The HTML report\<close>


















subsection \<open>The JSON export and \<open>save\<close>\<close>



definition save_address :: "env \<Rightarrow> address \<Rightarrow> addressOutput" where
  "save_address ev e =
     \<lparr> addressOutput.addressType = address.addressType e,
       derivation = getDerivation e,
       address = toString e,
       cashAddress = asCashAddress e,
       balance = toBaseUnit ev (address.balance e),
       funded = toBaseUnit ev (stats.funded (stats e)),
       spent = toBaseUnit ev (stats.spent (stats e)) \<rparr>"

definition save_summary :: "env \<Rightarrow> number summaryEntry \<Rightarrow> string summaryEntry" where
  "save_summary ev e =
     \<lparr> summaryEntry.addressType = summaryEntry.addressType e,
       balance = toBaseUnit ev (summaryEntry.balance e) \<rparr>"

definition save_transaction :: "env \<Rightarrow> number operation \<Rightarrow> string operation" where
  "save_transaction ev e =
     \<lparr> operation.date = operation.date e,
       block = block e,
       txid = txid e,
       address = operation.address e,
       cashAddress = toUnprefixedCashAddress ev (operation.address e),
       amount = toBaseUnit ev (amount e),
       operationType = operationType e \<rparr>"

definition save_imported :: "env \<Rightarrow> number operation \<Rightarrow> string operation" where
  "save_imported ev e =
     \<lparr> operation.date = operation.date e,
       block = block e,
       txid = txid e,
       address = operation.address e,
       cashAddress = operation.cashAddress e,
       amount = toBaseUnit ev (amount e),
       operationType = operationType e \<rparr>"

definition save_comparison :: "env \<Rightarrow> number comparison \<Rightarrow> string comparison" where
  "save_comparison ev e =
     \<lparr> imported = map_option (save_imported ev) (imported e),
       actual = map_option (save_transaction ev) (actual e),
       status = status e \<rparr>"

definition providerURL :: "env \<Rightarrow> string" where
  "providerURL ev =
     (case customAPI (configuration ev) of
        Some url \<Rightarrow> url
      | None \<Rightarrow>
          if symbol (configuration ev) = ''BCH''
          then bch (defaultAPI (configuration ev))
          else general (defaultAPI (configuration ev)))"

definition save_object :: "env \<Rightarrow> metadata \<Rightarrow> data \<Rightarrow> object" where
  \<comment> \<open>the local \<open>object\<close> of \<open>save\<close>\<close>
  "save_object ev meta' data' =
     \<lparr> meta =
         [(''by'', Str ''xpub scan <https://github.com/LedgerHQ/xpub-scan>''),
          (''version'', Str (version meta')),
          (''xpub'', Str (xpub meta')),
          (''analysis_date'', Str (metadata.date meta')),
          (''currency'', Str (currency (configuration ev))),
          (''provider'', Str (providerType (configuration ev))),
          (''provider_url'', Str (providerURL ev)),
          (''gap_limit'', Num (GAP_LIMIT ev)),
          (''unit'', Str ''Base unit (i.e., satoshis or equivalent unit)'')],
       addresses = map (save_address ev) (data.addresses data'),
       summary = map (save_summary ev) (data.summary data'),
       transactions = map (save_transaction ev) (data.transactions data'),
       comparisons = map_option (map (save_comparison ev)) (data.comparisons data') \<rparr>"


subsection \<open>Notions of the specification, and sample inputs\<close>

text \<open>
  The specification speaks of integer strings in base units. \<open>truncated\<close> is the
  integer part of a number (rounding toward zero), \<open>decimal_string\<close> the decimal
  numeral of an integer, and \<open>is_integer_string\<close> recognises such numerals: an
  optional minus sign followed by digits only.
\<close>

definition truncated :: "number \<Rightarrow> int" where
  "truncated n = (if 0 \<le> n then \<lfloor>n\<rfloor> else \<lceil>n\<rceil>)"

definition decimal_string :: "int \<Rightarrow> string" where
  "decimal_string i = (if i < 0 then ''-'' else '''') @ digits (nat \<bar>i\<bar>)"

definition is_integer_string :: "string \<Rightarrow> bool" where
  "is_integer_string s =
     (case s of
        [] \<Rightarrow> False
      | c # r \<Rightarrow> if c = CHR ''-'' then r \<noteq> [] \<and> list_all is_digit r else list_all is_digit s)"

text \<open>
  A sample environment whose \<open>Number(big)\<close> is exact (as it is on every decimal
  that is a double), and sample arguments of \<open>save\<close>.
\<close>

definition exact_env :: env where
  "exact_env =
     \<lparr> configuration =
         \<lparr> currency = ''Bitcoin'', symbol = ''BTC'', providerType = ''default'',
           customAPI = None,
           defaultAPI = \<lparr> bch = ''https://bch.example/api'', general = ''https://example/api/{coin}'' \<rparr> \<rparr>,
       GAP_LIMIT = 20,
       EXTERNAL_EXPLORER_URL = ''https://live.blockcypher.com/{coin}/{type}/{item}'',
       reportTemplate = ''<p>{xpub}</p><p>{warning}</p>{summary}{addresses}{transactions}{comparisons}'',
       toUnprefixedCashAddress = (\<lambda>a. None),
       dirname = ''/app/actions'',
       JSON_stringify = (\<lambda>obj. ''{}''),
       minify = (\<lambda>s. s),
       Number_of_Big = (\<lambda>x. x) \<rparr>"


definition example_meta :: metadata where
  "example_meta = \<lparr> version = ''0.0.3'', xpub = ''xpub6BosfCn'', date = ''2021-02-01'' \<rparr>"

definition example_address :: address where
  "example_address =
     \<lparr> address.addressType = ''Legacy'',
       getDerivation = \<lparr> account = 0, index = 0 \<rparr>,
       toString = ''1A1zP1eP5QGefi2DMPTfTL5SLmv7DivfNa'',
       asCashAddress = None,
       balance = 8 / 10 ^ 9,
       stats = \<lparr> stats.funded = 15 / 10 ^ 9, spent = 7 / 10 ^ 9 \<rparr> \<rparr>"

definition example_data :: data where
  "example_data =
     \<lparr> data.addresses = [example_address],
       summary = [\<lparr> summaryEntry.addressType = ''Legacy'', balance = 3 / 2 \<rparr>],
       transactions = [],
       comparisons = None \<rparr>"

text \<open>Containment of a string in another, for statements about the report.\<close>

definition occurs :: "string \<Rightarrow> string \<Rightarrow> bool" where
  "occurs pat s = (indexOf pat s \<noteq> None)"

section \<open>Properties\<close>

subsection \<open>Numbers and their strings\<close>

lemma js_rem_1: "js_rem n 1 = 0 \<longleftrightarrow> isInteger n"
  unfolding js_rem_def isInteger_def
  by (auto simp: floor_eq_iff ceiling_eq_iff)

lemma digit_char_cases: "d < 10 \<Longrightarrow> d \<in> {0, 1, 2, 3, 4, 5, 6, 7, 8, 9::nat}"
  by auto


lemma is_digit_digit_char: "d < 10 \<Longrightarrow> is_digit (digit_char d)"
  using digit_char_cases [of d] by (auto simp: is_digit_def digit_char_def)

lemma digits_nonempty: "digits n \<noteq> []"
  by (subst digits.simps) simp

lemma digits_all: "list_all is_digit (digits n)"
proof (induction n rule: digits.induct)
  case (1 n)
  show ?case
    by (subst digits.simps) (use 1 in \<open>auto simp: is_digit_digit_char\<close>)
qed



lemma digits_times_10: "0 < m \<Longrightarrow> digits (m * 10) = digits m @ ''0''"
  by (subst digits.simps) (simp add: digit_char_def)

lemma digits_times_pow10: "0 < m \<Longrightarrow> digits (m * 10 ^ z) = digits m @ replicate z CHR ''0''"
proof (induction z)
  case 0
  then show ?case by simp
next
  case (Suc z)
  have "digits (m * 10 ^ Suc z) = digits ((m * 10 ^ z) * 10)" by (simp add: mult_ac)
  also have "\<dots> = digits (m * 10 ^ z) @ ''0''" using Suc.prems by (intro digits_times_10) simp
  finally show ?case using Suc by (simp add: replicate_append_same)
qed

lemma length_digits_le: "0 < d \<Longrightarrow> length (digits n) \<le> d \<longleftrightarrow> n < 10 ^ d"
proof (induction n arbitrary: d rule: digits.induct)
  case (1 n)
  show ?case
  proof (cases "n < 10")
    case True
    have "(10::nat) ^ 1 \<le> 10 ^ d" using 1(2) by (intro power_increasing) auto
    with True have "n < 10 ^ d" by simp
    with True 1(2) show ?thesis by (subst digits.simps) simp
  next
    case False
    show ?thesis
    proof (cases d)
      case 0
      with 1(2) show ?thesis by simp
    next
      case (Suc d')
      show ?thesis
      proof (cases "d' = 0")
        case True
        with Suc False show ?thesis
          by (subst digits.simps) (simp add: digits_nonempty Suc_le_eq)
      next
        case nz: False
        have "length (digits (n div 10)) \<le> d' \<longleftrightarrow> n div 10 < 10 ^ d'"
          using 1(1) [OF False, of d'] nz by simp
        moreover have "n div 10 < 10 ^ d' \<longleftrightarrow> n < 10 ^ Suc d'"
          by (simp add: div_less_iff_less_mult mult.commute)
        ultimately show ?thesis using False Suc by (subst digits.simps) simp
      qed
    qed
  qed
qed

lemma strip_zeros_spec:
  "strip_zeros s e = (s', e') \<Longrightarrow> 0 < s \<Longrightarrow>
     0 < s' \<and> e \<le> e' \<and> s = s' * 10 ^ nat (e' - e) \<and> s' mod 10 \<noteq> 0"
proof (induction s e rule: strip_zeros.induct)
  case (1 s e)
  show ?case
  proof (cases "s mod 10 = 0")
    case True
    with 1(3) have *: "strip_zeros (s div 10) (e + 1) = (s', e')"
      using 1(2) by (subst (asm) strip_zeros.simps) simp
    have pos: "0 < s div 10" using True 1(3) by (simp add: div_greater_zero_iff dvd_imp_le mod_eq_0_iff_dvd)
    from 1(1) [OF _ * pos] True 1(3)
    have ih: "0 < s'" "e + 1 \<le> e'" "s div 10 = s' * 10 ^ nat (e' - (e + 1))" "s' mod 10 \<noteq> 0" by auto
    have "s = (s div 10) * 10" using True by (simp add: mod_eq_0_iff_dvd)
    also have "\<dots> = s' * 10 ^ Suc (nat (e' - (e + 1)))" using ih(3) by simp
    also have "Suc (nat (e' - (e + 1))) = nat (e' - e)" using ih(2) by simp
    finally show ?thesis using ih by simp
  next
    case False
    with 1(2) have "s' = s" "e' = e" by (subst (asm) strip_zeros.simps; simp)+
    with False 1(3) show ?thesis by simp
  qed
qed


lemma scale_int: "scale_to_int f (of_int i) e = Some (nat i, e)"
  by (subst scale_to_int.simps) simp

lemma String_num_int:
  assumes "\<bar>i\<bar> < 10 ^ 21"
  shows "String_num (of_int i) = (if i < 0 then ''-'' else '''') @ digits (nat \<bar>i\<bar>)"
proof (cases "i = 0")
  case True
  then show ?thesis by (simp add: String_num_def) (subst digits.simps, simp add: digit_char_def)
next
  case False
  define m where "m = nat \<bar>i\<bar>"
  have mpos: "0 < m" using False by (simp add: m_def)
  have abs: "\<bar>of_int i :: rat\<bar> = of_int \<bar>i\<bar>" by simp
  obtain s' e' where st: "strip_zeros m 0 = (s', e')" by (cases "strip_zeros m 0")
  from strip_zeros_spec [OF st mpos]
  have sp: "0 < s'" "0 \<le> e'" "m = s' * 10 ^ nat e'" by auto
  have dm: "digits m = digits s' @ replicate (nat e') CHR ''0''"
    using sp digits_times_pow10 [of s' "nat e'"] by simp
  have "m < 10 ^ 21" using assms by (simp add: m_def nat_less_iff)
  then have "length (digits m) \<le> 21" by (simp add: length_digits_le)
  then have len: "int (length (digits s')) + e' \<le> 21" using dm sp by simp
  have "render_decimal s' e' = digits m"
    using len sp dm by (simp add: render_decimal_def Let_def)
  then show ?thesis
    using False st by (simp add: String_num_def abs scale_int m_def del: of_int_abs)
qed

lemma toBaseUnit_eq: "toBaseUnit ev a = String_num (of_int (truncated (toSatoshi ev a)))"
proof -
  define n where "n = toSatoshi ev a"
  have "(if js_rem n 1 \<noteq> 0 then Math_trunc n else n) = of_int (truncated n)"
  proof (cases "js_rem n 1 = 0")
    case True
    then have "of_int \<lfloor>n\<rfloor> = n" by (simp add: js_rem_1 isInteger_def)
    then have "n \<in> \<int>" by (metis Ints_of_int)
    then have "of_int (truncated n) = n" by (auto simp: truncated_def elim!: Ints_cases)
    with True show ?thesis by simp
  next
    case False
    then show ?thesis by (simp add: Math_trunc_def truncated_def)
  qed
  then show ?thesis unfolding toBaseUnit_def n_def Let_def by simp
qed

lemma is_integer_string_decimal: "is_integer_string (decimal_string i)"
proof -
  have d: "list_all is_digit (digits m)" "digits m \<noteq> []" for m
    by (simp_all add: digits_all digits_nonempty)
  have nm: "hd (digits m) \<noteq> CHR ''-''" for m
    using d [of m] by (cases "digits m") (auto simp: is_digit_def)
  show ?thesis
  proof (cases "i < 0")
    case True
    then show ?thesis by (simp add: is_integer_string_def decimal_string_def d)
  next
    case False
    then show ?thesis using nm [of "nat \<bar>i\<bar>"] d [of "nat \<bar>i\<bar>"]
      by (cases "digits (nat \<bar>i\<bar>)") (auto simp: is_integer_string_def decimal_string_def)
  qed
qed

lemma toBaseUnit_decimal:
  "\<bar>truncated (toSatoshi ev a)\<bar> < 10 ^ 21 \<Longrightarrow>
     toBaseUnit ev a = decimal_string (truncated (toSatoshi ev a)) \<and>
     is_integer_string (toBaseUnit ev a)"
  using is_integer_string_decimal [of "truncated (toSatoshi ev a)"]
  by (simp add: toBaseUnit_eq String_num_int decimal_string_def)

subsection \<open>Reading back the strings of \<open>String\<close>\<close>





lemma parse_exponent_plus:
  "list_all is_digit dx \<Longrightarrow> dx \<noteq> [] \<Longrightarrow> parse_exponent (''e+'' @ dx) = Some (int (nat_of_digits dx))"
  by (simp add: parse_exponent_def)



lemma pow10_nat: "pow10 (int n) = 10 ^ n"
  by (simp add: pow10_def)


subsection \<open>\<open>saveHTML\<close> on the object that \<open>save\<close> builds\<close>














subsection \<open>Replacement in strings\<close>

lemma substring_0: "substring s 0 n = take n s"
  by (simp add: substring_def Let_def min_def max_def)



lemma indexOf_SomeD: "indexOf pat s = Some i \<Longrightarrow> take (length pat) (drop i s) = pat"
proof (induction s arbitrary: i)
  case Nil
  then show ?case by (simp split: if_splits)
next
  case (Cons c cs)
  show ?case
  proof (cases "starts_with pat (c # cs)")
    case True
    with Cons.prems show ?thesis by (simp add: starts_with_def)
  next
    case False
    with Cons.prems obtain j where "indexOf pat cs = Some j" "i = Suc j" by auto
    with Cons.IH show ?thesis by simp
  qed
qed

lemma occurs_append: "occurs pat (a @ pat @ b)"
proof (induction a)
  case Nil
  have "starts_with pat (pat @ b)" by (simp add: starts_with_def)
  then show ?case by (cases "pat @ b") (auto simp: occurs_def)
next
  case (Cons x a)
  then show ?case by (auto simp: occurs_def)
qed

lemma occurs_iff: "occurs pat s \<longleftrightarrow> (\<exists>a b. s = a @ pat @ b)"
proof
  assume "occurs pat s"
  then obtain i where i: "indexOf pat s = Some i" by (auto simp: occurs_def)
  have "s = take i s @ take (length pat) (drop i s) @ drop (length pat) (drop i s)"
    by (simp only: append_take_drop_id)
  with indexOf_SomeD [OF i] show "\<exists>a b. s = a @ pat @ b" by metis
next
  assume "\<exists>a b. s = a @ pat @ b"
  then show "occurs pat s" using occurs_append by auto
qed


subsection \<open>The claims of the specification\<close>




text \<open>
  \<^bold>\<open>C2\<close> (as amended). When the funded and the spent amount of an address are whole
  numbers of base units of magnitude at most \<open>2 ^ 53\<close>, as is their difference, and the
  balance is their exact difference, the three strings of the output entry are the
  numerals of integers with balance = funded - spent. (\<open>Number(big)\<close> is exact on the
  integers up to \<open>2 ^ 53\<close>, which are doubles; that is the last hypothesis.)
\<close>

theorem balance_invariant_whole_units:
  assumes "address.balance e = stats.funded (stats e) - stats.spent (stats e)"
    and "stats.funded (stats e) * 100000000 = of_int F"
    and "stats.spent (stats e) * 100000000 = of_int S"
    and "\<bar>F\<bar> \<le> 2 ^ 53" and "\<bar>S\<bar> \<le> 2 ^ 53" and "\<bar>F - S\<bar> \<le> 2 ^ 53"
    and "\<forall>i. \<bar>i\<bar> \<le> 2 ^ 53 \<longrightarrow> Number_of_Big ev (of_int i) = of_int i"
  shows "addressOutput.balance (save_address ev e) = decimal_string (F - S) \<and>
         addressOutput.funded (save_address ev e) = decimal_string F \<and>
         addressOutput.spent (save_address ev e) = decimal_string S"
proof -
  have conv: "toBaseUnit ev x = decimal_string i" if "x * 100000000 = of_int i" "\<bar>i\<bar> \<le> 2 ^ 53" for x i
  proof -
    have "toSatoshi ev x = of_int i" using that assms(7) by (simp add: toSatoshi_def)
    then have t: "truncated (toSatoshi ev x) = i" by (simp add: truncated_def)
    have "\<bar>i\<bar> < 10 ^ 21" using that(2) by simp
    with t show ?thesis using toBaseUnit_decimal [of ev x] by simp
  qed
  have "address.balance e * 100000000 = of_int (F - S)"
    using assms(1-3) by (simp add: algebra_simps)
  then show ?thesis
    using conv assms by (simp add: save_address_def)
qed

text \<open>Funded 2 coins, spent 1.5 coins, balance 0.5 coins.\<close>

theorem balance_invariant_whole_units_witness:
  "(1 / 2 :: rat) = 2 - 3 / 2 \<and> (2 :: rat) * 100000000 = of_int 200000000 \<and>
   (3 / 2 :: rat) * 100000000 = of_int 150000000 \<and>
   addressOutput.balance (save_address exact_env
      (example_address \<lparr> address.balance := 1 / 2, stats := \<lparr> stats.funded = 2, spent = 3 / 2 \<rparr> \<rparr>)) = ''50000000'' \<and>
   addressOutput.funded (save_address exact_env
      (example_address \<lparr> address.balance := 1 / 2, stats := \<lparr> stats.funded = 2, spent = 3 / 2 \<rparr> \<rparr>)) = ''200000000'' \<and>
   addressOutput.spent (save_address exact_env
      (example_address \<lparr> address.balance := 1 / 2, stats := \<lparr> stats.funded = 2, spent = 3 / 2 \<rparr> \<rparr>)) = ''150000000''"
proof -
  define e where "e = example_address \<lparr> address.balance := 1 / 2, stats := \<lparr> stats.funded = 2, spent = 3 / 2 \<rparr> \<rparr>"
  have 1: "address.balance e = stats.funded (stats e) - stats.spent (stats e)" by (simp add: e_def)
  have 2: "stats.funded (stats e) * 100000000 = of_int 200000000" by (simp add: e_def)
  have 3: "stats.spent (stats e) * 100000000 = of_int 150000000" by (simp add: e_def)
  have 4: "\<bar>200000000 :: int\<bar> \<le> 2 ^ 53" "\<bar>150000000 :: int\<bar> \<le> 2 ^ 53" "\<bar>200000000 - 150000000 :: int\<bar> \<le> 2 ^ 53"
    by simp_all
  have 5: "\<forall>i. \<bar>i\<bar> \<le> 2 ^ 53 \<longrightarrow> Number_of_Big exact_env (of_int i) = of_int i"
    by (simp add: exact_env_def)
  have 6: "decimal_string (200000000 - 150000000) = ''50000000''" "decimal_string 200000000 = ''200000000''"
      "decimal_string 150000000 = ''150000000''" by code_simp+
  have 7: "(1 / 2 :: rat) = 2 - 3 / 2 \<and> (2 :: rat) * 100000000 = of_int 200000000 \<and>
   (3 / 2 :: rat) * 100000000 = of_int 150000000"
    by simp
  from balance_invariant_whole_units [OF 1 2 3 4 5] 6
  have "addressOutput.balance (save_address exact_env e) = ''50000000'' \<and>
        addressOutput.funded (save_address exact_env e) = ''200000000'' \<and>
        addressOutput.spent (save_address exact_env e) = ''150000000''"
    by simp
  with 7 show ?thesis unfolding e_def by blast
qed

text \<open>
  Without whole base units the invariant is lost, because each amount is truncated on its
  own: funded 1.5 base units, spent 0.7 and balance 0.8 become 1, 0 and 0.
\<close>

theorem balance_invariant_counterexample:
  "address.balance example_address =
     stats.funded (stats example_address) - stats.spent (stats example_address) \<and>
   addressOutput.balance (save_address exact_env example_address) = ''0'' \<and>
   addressOutput.funded (save_address exact_env example_address) = ''1'' \<and>
   addressOutput.spent (save_address exact_env example_address) = ''0''"
  by code_simp




text \<open>
  \<^bold>\<open>C4\<close> (as amended). The \<open>meta\<close> member of the output object has exactly the
  members \<open>by\<close>, \<open>version\<close>, \<open>xpub\<close>, \<open>analysis_date\<close>, \<open>currency\<close>,
  \<open>provider\<close>, \<open>provider_url\<close>, \<open>gap_limit\<close> and \<open>unit\<close>, in this order:
  the key is under the name \<open>xpub\<close>, and \<open>by\<close> names the program.
\<close>

theorem meta_members:
  "map fst (object.meta (save_object ev m d)) =
     [''by'', ''version'', ''xpub'', ''analysis_date'', ''currency'', ''provider'',
      ''provider_url'', ''gap_limit'', ''unit'']"
  by (simp add: save_object_def)

text \<open>The members are not the eight of the specification: \<open>by\<close> is one of them.\<close>

theorem meta_members_counterexample:
  "set (map fst (object.meta (save_object exact_env example_meta example_data))) \<noteq>
   set [''version'', ''key'', ''analysis_date'', ''currency'', ''provider'',
        ''provider_url'', ''gap_limit'', ''unit'']"
proof -
  have "''by'' \<in> set (map fst (object.meta (save_object exact_env example_meta example_data)))"
    by (simp add: save_object_def)
  moreover have "''by'' \<notin> set [''version'', ''key'', ''analysis_date'', ''currency'', ''provider'',
        ''provider_url'', ''gap_limit'', ''unit'']"
    by simp
  ultimately show ?thesis by metis
qed





text \<open>
  \<^bold>\<open>C7\<close>. The output object has one address entry for each address of the input, in
  the same order, and the entry has the address type unchanged, the derivation (account
  and index), the address string, the cash-address form, and the balance, funded and
  spent amounts converted by \<open>toBaseUnit\<close>.
\<close>

theorem addresses_shape:
  "length (object.addresses (save_object ev m d)) = length (data.addresses d) \<and>
   (\<forall>i < length (data.addresses d).
      addressOutput.addressType (object.addresses (save_object ev m d) ! i) =
        address.addressType (data.addresses d ! i) \<and>
      derivation (object.addresses (save_object ev m d) ! i) = getDerivation (data.addresses d ! i) \<and>
      addressOutput.address (object.addresses (save_object ev m d) ! i) = toString (data.addresses d ! i) \<and>
      addressOutput.cashAddress (object.addresses (save_object ev m d) ! i) =
        asCashAddress (data.addresses d ! i) \<and>
      addressOutput.balance (object.addresses (save_object ev m d) ! i) =
        toBaseUnit ev (address.balance (data.addresses d ! i)) \<and>
      addressOutput.funded (object.addresses (save_object ev m d) ! i) =
        toBaseUnit ev (stats.funded (stats (data.addresses d ! i))) \<and>
      addressOutput.spent (object.addresses (save_object ev m d) ! i) =
        toBaseUnit ev (stats.spent (stats (data.addresses d ! i))))"
  by (simp add: save_object_def save_address_def)

text \<open>The entry of the sample address.\<close>

theorem addresses_shape_witness:
  "(0::nat) < length (data.addresses example_data) \<and>
   object.addresses (save_object exact_env example_meta example_data) ! 0 =
     \<lparr> addressOutput.addressType = ''Legacy'',
       derivation = \<lparr> account = 0, index = 0 \<rparr>,
       address = ''1A1zP1eP5QGefi2DMPTfTL5SLmv7DivfNa'',
       cashAddress = None,
       balance = ''0'', funded = ''1'', spent = ''0'' \<rparr>"
proof -
  have h: "(0::nat) < length (data.addresses example_data)" by (simp add: example_data_def)
  have v: "toBaseUnit exact_env (8 / 10 ^ 9) = ''0''" "toBaseUnit exact_env (15 / 10 ^ 9) = ''1''"
    "toBaseUnit exact_env (7 / 10 ^ 9) = ''0''" by code_simp+
  from addresses_shape [of exact_env example_meta example_data] h
  show ?thesis
    using v by (simp add: example_data_def example_address_def)
qed

text \<open>
  \<^bold>\<open>C8\<close>. \<open>meta.provider_url\<close> is the custom API URL whenever one is configured;
  otherwise it is the default API URL for BCH when the configured symbol is \<open>BCH\<close>,
  and the general default for every other symbol.
\<close>

theorem provider_url_mode:
  "(customAPI (configuration ev) = Some url \<longrightarrow>
      map_of (object.meta (save_object ev m d)) ''provider_url'' = Some (Str url)) \<and>
   (customAPI (configuration ev) = None \<and> symbol (configuration ev) = ''BCH'' \<longrightarrow>
      map_of (object.meta (save_object ev m d)) ''provider_url'' =
        Some (Str (bch (defaultAPI (configuration ev))))) \<and>
   (customAPI (configuration ev) = None \<and> symbol (configuration ev) \<noteq> ''BCH'' \<longrightarrow>
      map_of (object.meta (save_object ev m d)) ''provider_url'' =
        Some (Str (general (defaultAPI (configuration ev)))))"
  by (simp add: save_object_def providerURL_def)

text \<open>The three modes.\<close>

theorem provider_url_mode_witness:
  "map_of (object.meta (save_object
      (exact_env \<lparr> configuration := (configuration exact_env) \<lparr> customAPI := Some ''https://node.example/api'' \<rparr> \<rparr>)
      example_meta example_data)) ''provider_url'' = Some (Str ''https://node.example/api'') \<and>
   map_of (object.meta (save_object
      (exact_env \<lparr> configuration := (configuration exact_env) \<lparr> symbol := ''BCH'' \<rparr> \<rparr>)
      example_meta example_data)) ''provider_url'' = Some (Str ''https://bch.example/api'') \<and>
   map_of (object.meta (save_object exact_env example_meta example_data)) ''provider_url'' =
      Some (Str ''https://example/api/{coin}'')"
proof -
  let ?custom = "exact_env \<lparr> configuration := (configuration exact_env) \<lparr> customAPI := Some ''https://node.example/api'' \<rparr> \<rparr>"
  let ?bch = "exact_env \<lparr> configuration := (configuration exact_env) \<lparr> symbol := ''BCH'' \<rparr> \<rparr>"
  have 1: "customAPI (configuration ?custom) = Some ''https://node.example/api''" by simp
  have 2: "customAPI (configuration ?bch) = None \<and> symbol (configuration ?bch) = ''BCH''"
    by (simp add: exact_env_def)
  have 3: "customAPI (configuration exact_env) = None \<and> symbol (configuration exact_env) \<noteq> ''BCH''"
    by (simp add: exact_env_def)
  from provider_url_mode [of ?custom "''https://node.example/api''" example_meta example_data] 1
       provider_url_mode [of ?bch undefined example_meta example_data] 2
       provider_url_mode [of exact_env undefined example_meta example_data] 3
  show ?thesis by (simp add: exact_env_def)
qed

text \<open>
  \<^bold>\<open>C9\<close>. \<open>addressAsLink\<close> returns the empty string for an undefined address.
  For a defined address it returns a link to the explorer page of the address whose
  visible text is the address itself when that has fewer than 45 characters, and its
  first 45 characters followed by three dots otherwise.
\<close>

theorem addressAsLink_text:
  \<open>addressAsLink ev None = '''' \<and>
   addressAsLink ev (Some a) =
     ''<a class="monospaced" href="'' @
     replace (replace (replace (EXTERNAL_EXPLORER_URL ev) ''{coin}'' (getCoinName ev))
       ''{type}'' ''address'') ''{item}'' a @
     ''" target=_blank>'' @
     (if length a < 45 then a else take 45 a @ ''...'') @ ''</a>''\<close>
  by (simp add: addressAsLink_def substring_0 Let_def)



end
